theory Spec2Isabelle
  imports Main "HOL-Library.Char_ord" "HOL-Library.List_Lexorder" "HOL-Library.Product_Lexorder"
    "HOL-Library.Multiset"
begin

unbundle bit_operations_syntax

section \<open>Go values used by awssign.go\<close>

text \<open>
  A Go \<open>string\<close> and a \<open>[]byte\<close> are both sequences of bytes: they are modelled as
  \<open>string\<close> (a list of 8-bit \<open>char\<close>). With \<open>Char_ord\<close> and \<open>List_Lexorder\<close> the
  order on \<open>string\<close> is the byte-wise lexicographic order that Go's \<open>sort.Strings\<close>
  uses, so \<open>sort\<close> stands for \<open>sort.Strings\<close>.
\<close>

subsection \<open>Package strings\<close>


definition lower_byte :: "char \<Rightarrow> char" where
  "lower_byte c = (if CHR ''A'' \<le> c \<and> c \<le> CHR ''Z'' then char_of (of_char c + (32 :: nat)) else c)"

definition ToLower :: "string \<Rightarrow> string" where
  "ToLower s = map lower_byte s"

text \<open>\<open>strings.Join(elems, sep)\<close>.\<close>

fun Join :: "string list \<Rightarrow> string \<Rightarrow> string" where
  "Join [] sep = []"
| "Join [x] sep = x"
| "Join (x # y # ys) sep = x @ sep @ Join (y # ys) sep"

text \<open>
  \<open>strings.Split(s, sep)\<close> for a separator of one byte (the code only splits at \<open>";"\<close>):
  the pieces between the separators; the empty string gives one empty piece.
\<close>

fun Split :: "string \<Rightarrow> char \<Rightarrow> string list" where
  "Split [] sep = [[]]"
| "Split (c # cs) sep =
     (if c = sep then [] # Split cs sep
      else (case Split cs sep of [] \<Rightarrow> [[c]] | p # ps \<Rightarrow> (c # p) # ps))"

subsection \<open>Hexadecimal rendering\<close>

text \<open>
  \<open>hex.EncodeToString\<close> and \<open>fmt.Sprintf("%x", ...)\<close> on a byte array: two lower-case
  hexadecimal digits per byte.
\<close>

definition hexdigit :: "nat \<Rightarrow> char" where
  "hexdigit n = ''0123456789abcdef'' ! n"

definition hex_byte :: "char \<Rightarrow> string" where
  "hex_byte c = [hexdigit (of_char c div 16), hexdigit (of_char c mod 16)]"

definition EncodeToString :: "string \<Rightarrow> string" where
  "EncodeToString bs = concat (map hex_byte bs)"

text \<open>\<open>hex.DecodeString\<close> on an even number of lower-case hexadecimal digits.\<close>

definition hexval :: "char \<Rightarrow> int" where
  "hexval c = (if CHR ''0'' \<le> c \<and> c \<le> CHR ''9'' then of_char c - 48 else of_char c - 87)"

fun from_hex :: "string \<Rightarrow> string" where
  "from_hex (a # b # rest) = char_of (16 * hexval a + hexval b) # from_hex rest"
| "from_hex _ = []"

section \<open>crypto/sha256 and crypto/hmac\<close>

text \<open>
  The hash of the Go standard library, written after FIPS 180-4 in the shape of Go's
  \<open>blockGeneric\<close>. A \<open>uint32\<close> is an \<open>int\<close> in \<open>0 ..< 2 ^ 32\<close>; the wrap-around of
  \<open>+\<close> and the truncation of a left shift are written out with \<open>take_bit 32\<close>.
\<close>

type_synonym uint32 = int

definition add32 :: "uint32 \<Rightarrow> uint32 \<Rightarrow> uint32" where
  "add32 a b = take_bit 32 (a + b)"

definition not32 :: "uint32 \<Rightarrow> uint32" where
  "not32 a = a XOR 0xffffffff"

text \<open>\<open>bits.RotateLeft32(x, -n)\<close>: rotation to the right by \<open>n\<close> bits.\<close>

definition rotr :: "nat \<Rightarrow> uint32 \<Rightarrow> uint32" where
  "rotr n x = drop_bit n x OR take_bit 32 (push_bit (32 - n) x)"

definition bsig0 :: "uint32 \<Rightarrow> uint32" where
  "bsig0 a = rotr 2 a XOR rotr 13 a XOR rotr 22 a"

definition bsig1 :: "uint32 \<Rightarrow> uint32" where
  "bsig1 e = rotr 6 e XOR rotr 11 e XOR rotr 25 e"

definition ssig0 :: "uint32 \<Rightarrow> uint32" where
  "ssig0 v = rotr 7 v XOR rotr 18 v XOR drop_bit 3 v"

definition ssig1 :: "uint32 \<Rightarrow> uint32" where
  "ssig1 v = rotr 17 v XOR rotr 19 v XOR drop_bit 10 v"

definition ch :: "uint32 \<Rightarrow> uint32 \<Rightarrow> uint32 \<Rightarrow> uint32" where
  "ch e f g = (e AND f) XOR (not32 e AND g)"

definition maj :: "uint32 \<Rightarrow> uint32 \<Rightarrow> uint32 \<Rightarrow> uint32" where
  "maj a b c = (a AND b) XOR (a AND c) XOR (b AND c)"

text \<open>The table \<open>_K\<close> of round constants, eight to a row.\<close>

definition K256 :: "uint32 list" where
  "K256 = concat [
    [0x428a2f98, 0x71374491, 0xb5c0fbcf, 0xe9b5dba5, 0x3956c25b, 0x59f111f1, 0x923f82a4, 0xab1c5ed5],
    [0xd807aa98, 0x12835b01, 0x243185be, 0x550c7dc3, 0x72be5d74, 0x80deb1fe, 0x9bdc06a7, 0xc19bf174],
    [0xe49b69c1, 0xefbe4786, 0x0fc19dc6, 0x240ca1cc, 0x2de92c6f, 0x4a7484aa, 0x5cb0a9dc, 0x76f988da],
    [0x983e5152, 0xa831c66d, 0xb00327c8, 0xbf597fc7, 0xc6e00bf3, 0xd5a79147, 0x06ca6351, 0x14292967],
    [0x27b70a85, 0x2e1b2138, 0x4d2c6dfc, 0x53380d13, 0x650a7354, 0x766a0abb, 0x81c2c92e, 0x92722c85],
    [0xa2bfe8a1, 0xa81a664b, 0xc24b8b70, 0xc76c51a3, 0xd192e819, 0xd6990624, 0xf40e3585, 0x106aa070],
    [0x19a4c116, 0x1e376c08, 0x2748774c, 0x34b0bcb5, 0x391c0cb3, 0x4ed8aa4a, 0x5b9cca4f, 0x682e6ff3],
    [0x748f82ee, 0x78a5636f, 0x84c87814, 0x8cc70208, 0x90befffa, 0xa4506ceb, 0xbef9a3f7, 0xc67178f2]]"

text \<open>The eight chaining words \<open>h0 .. h7\<close> of a digest, and their initial values.\<close>

type_synonym digest = "uint32 \<times> uint32 \<times> uint32 \<times> uint32 \<times> uint32 \<times> uint32 \<times> uint32 \<times> uint32"

definition init256 :: digest where
  "init256 = (0x6a09e667, 0xbb67ae85, 0x3c6ef372, 0xa54ff53a,
              0x510e527f, 0x9b05688c, 0x1f83d9ab, 0x5be0cd19)"

text \<open>A big-endian word from four bytes, and the words of a chunk.\<close>

definition be32 :: "char \<Rightarrow> char \<Rightarrow> char \<Rightarrow> char \<Rightarrow> uint32" where
  "be32 a b c d =
     push_bit 24 (of_char a) OR push_bit 16 (of_char b) OR push_bit 8 (of_char c) OR of_char d"

fun words_of :: "string \<Rightarrow> uint32 list" where
  "words_of (a # b # c # d # rest) = be32 a b c d # words_of rest"
| "words_of _ = []"

text \<open>
  The message schedule is kept as a window of the sixteen most recent words, oldest
  first: the head is \<open>w[i]\<close>, and the word sixteen places later is
  \<open>w[i+16] = t1 + w[i+9] + t2 + w[i]\<close> with \<open>t1\<close> from \<open>w[i+14]\<close> and \<open>t2\<close> from
  \<open>w[i+1]\<close>.
\<close>

definition next_w :: "uint32 list \<Rightarrow> uint32" where
  "next_w w = add32 (add32 (add32 (ssig1 (w ! 14)) (w ! 9)) (ssig0 (w ! 1))) (w ! 0)"

fun round2 :: "uint32 \<Rightarrow> uint32 \<Rightarrow> digest \<Rightarrow> digest" where
  "round2 t1 t2 (a, b, c, d, e, f, g, h) = (add32 t1 t2, a, b, c, add32 d t1, e, f, g)"

fun round1 :: "uint32 \<Rightarrow> uint32 \<Rightarrow> digest \<Rightarrow> digest" where
  "round1 k w (a, b, c, d, e, f, g, h) =
     round2 (add32 (add32 (add32 (add32 h (bsig1 e)) (ch e f g)) k) w)
            (add32 (bsig0 a) (maj a b c))
            (a, b, c, d, e, f, g, h)"

fun rounds :: "uint32 list \<Rightarrow> uint32 list \<Rightarrow> digest \<Rightarrow> digest" where
  "rounds [] w s = s"
| "rounds (k # ks) w s = rounds ks (tl w @ [next_w w]) (round1 k (hd w) s)"

fun add_digest :: "digest \<Rightarrow> digest \<Rightarrow> digest" where
  "add_digest (a, b, c, d, e, f, g, h) (a', b', c', d', e', f', g', h') =
     (add32 a a', add32 b b', add32 c c', add32 d d',
      add32 e e', add32 f f', add32 g g', add32 h h')"

definition block :: "digest \<Rightarrow> string \<Rightarrow> digest" where
  "block s p = add_digest s (rounds K256 (words_of p) s)"

text \<open>The loop \<open>for len(p) >= chunk\<close>: all chunks of 64 bytes, in order.\<close>

fun blocks :: "digest \<Rightarrow> string list \<Rightarrow> digest" where
  "blocks s [] = s"
| "blocks s (p # ps) = blocks (block s p) ps"

fun chunks :: "string \<Rightarrow> string list" where
  "chunks p = (if length p < 64 then [] else take 64 p # chunks (drop 64 p))"

declare chunks.simps [simp del]

definition be_bytes :: "nat \<Rightarrow> int \<Rightarrow> string" where
  "be_bytes n v = map (\<lambda>i. char_of (drop_bit (8 * i) v)) (rev [0..<n])"

text \<open>
  Padding: one byte \<open>0x80\<close>, zero bytes up to 56 modulo 64, and the length of the message
  in bits as eight big-endian bytes.
\<close>

definition pad :: "string \<Rightarrow> string" where
  "pad m = m @ [CHR 0x80] @ replicate ((119 - length m mod 64) mod 64) (CHR 0x00)
             @ be_bytes 8 (8 * int (length m))"

fun digest_bytes :: "digest \<Rightarrow> string" where
  "digest_bytes (a, b, c, d, e, f, g, h) = concat (map (be_bytes 4) [a, b, c, d, e, f, g, h])"

text \<open>\<open>sha256.Sum256\<close>: the 32 bytes of the digest.\<close>

definition Sum256 :: "string \<Rightarrow> string" where
  "Sum256 m = digest_bytes (blocks init256 (chunks (pad m)))"

text \<open>
  \<open>hmac.New(sha256.New, key)\<close> followed by one \<open>Write\<close> and \<open>Sum(nil)\<close>. \<open>New\<close> hashes a
  key longer than the block size of 64 bytes, pads the key with zero bytes to 64 and
  keeps the two pads; \<open>Write\<close> appends to the inner hash; \<open>Sum\<close> hashes the outer pad
  followed by the inner digest.
\<close>

definition xor_byte :: "nat \<Rightarrow> char \<Rightarrow> char" where
  "xor_byte p c = char_of (of_char c XOR p)"

record mac =
  opad :: string
  inner :: string

definition hmac_New :: "string \<Rightarrow> mac" where
  "hmac_New key =
     (let k = (if 64 < length key then Sum256 key else key);
          k64 = k @ replicate (64 - length k) (CHR 0x00)
      in \<lparr>opad = map (xor_byte 0x5c) k64, inner = map (xor_byte 0x36) k64\<rparr>)"

definition mac_Write :: "mac \<Rightarrow> string \<Rightarrow> mac" where
  "mac_Write m p = m\<lparr>inner := inner m @ p\<rparr>"

definition mac_Sum :: "mac \<Rightarrow> string" where
  "mac_Sum m = Sum256 (opad m @ Sum256 (inner m))"

text \<open>
  Two forms used to evaluate the hash: the truncation of a sum of two words by one
  comparison, and a rotation to the right by \<open>n\<close> put together from the high bits
  and the \<open>n\<close> low bits of the word (\<open>low\<close> is the mask \<open>2 ^ n - 1\<close>, \<open>m\<close> is \<open>32 - n\<close>).
\<close>

definition wrap32 :: "int \<Rightarrow> uint32" where
  "wrap32 s = (if 0 \<le> s \<and> s < 4294967296 then s
               else if 4294967296 \<le> s \<and> s < 8589934592 then s - 4294967296
               else take_bit 32 s)"

definition rot :: "nat \<Rightarrow> nat \<Rightarrow> int \<Rightarrow> uint32 \<Rightarrow> uint32" where
  "rot n m low x = drop_bit n x OR push_bit m (x AND low)"

text \<open>
  The keyed hash of RFC 2104, which the specification writes \<open>HMAC(key, message)\<close>:
  the hash of the key xor \<open>opad\<close> followed by the hash of the key xor \<open>ipad\<close> followed by
  the message, for the key padded (or first hashed) to the block size.
\<close>

definition HMAC :: "string \<Rightarrow> string \<Rightarrow> string" where
  "HMAC key message =
     (let k = (if 64 < length key then Sum256 key else key);
          k64 = k @ replicate (64 - length k) (CHR 0x00)
      in Sum256 (map (xor_byte 0x5c) k64 @ Sum256 (map (xor_byte 0x36) k64 @ message)))"

section \<open>Package time\<close>

text \<open>
  A \<open>time.Time\<close> in UTC, as the fields that \<open>Format\<close> reads from it (\<open>Date\<close> and
  \<open>Clock\<close>). Go's \<open>int\<close> fields are \<open>int\<close>.
\<close>

record Time =
  Year :: int
  Month :: int
  Day :: int
  Hour :: int
  Minute :: int
  Second :: int

definition digit_char :: "int \<Rightarrow> char" where
  "digit_char d = char_of (48 + d)"

function decimal :: "int \<Rightarrow> string" where
  "decimal n = (if n < 10 then [digit_char n] else decimal (n div 10) @ [digit_char (n mod 10)])"
  by pat_completeness auto
termination
  by (relation "measure nat") auto

declare decimal.simps [simp del]

text \<open>
  \<open>appendInt(b, x, width)\<close> of package time: a minus sign for a negative number, then the
  decimal digits padded with zeros on the left to the width.
\<close>

definition pad_zero :: "nat \<Rightarrow> string \<Rightarrow> string" where
  "pad_zero width ds = replicate (width - length ds) (CHR ''0'') @ ds"

definition appendInt :: "int \<Rightarrow> nat \<Rightarrow> string" where
  "appendInt x width =
     (if x < 0 then CHR ''-'' # pad_zero width (decimal (- x)) else pad_zero width (decimal x))"

text \<open>
  A layout is the sequence of chunks that \<open>Format\<close> finds in the layout string: the
  standard chunks \<open>2006\<close>, \<open>01\<close>, \<open>02\<close>, \<open>15\<close>, \<open>04\<close>, \<open>05\<close>, \<open>Z07:00\<close>, and literal text.
  A time in UTC has offset zero, for which \<open>Z07:00\<close> prints \<open>Z\<close>.
\<close>

datatype chunk =
  stdLongYear | stdZeroMonth | stdZeroDay | stdHour | stdZeroMinute | stdZeroSecond
  | stdISO8601ColonTZ | Literal string

fun format_chunk :: "Time \<Rightarrow> chunk \<Rightarrow> string" where
  "format_chunk t stdLongYear = appendInt (Year t) 4"
| "format_chunk t stdZeroMonth = appendInt (Month t) 2"
| "format_chunk t stdZeroDay = appendInt (Day t) 2"
| "format_chunk t stdHour = appendInt (Hour t) 2"
| "format_chunk t stdZeroMinute = appendInt (Minute t) 2"
| "format_chunk t stdZeroSecond = appendInt (Second t) 2"
| "format_chunk t stdISO8601ColonTZ = ''Z''"
| "format_chunk t (Literal s) = s"

definition Format :: "Time \<Rightarrow> chunk list \<Rightarrow> string" where
  "Format t layout = concat (map (format_chunk t) layout)"

text \<open>\<open>time.RFC3339 = "2006-01-02T15:04:05Z07:00"\<close>.\<close>

definition RFC3339 :: "chunk list" where
  "RFC3339 = [stdLongYear, Literal ''-'', stdZeroMonth, Literal ''-'', stdZeroDay, Literal ''T'',
              stdHour, Literal '':'', stdZeroMinute, Literal '':'', stdZeroSecond, stdISO8601ColonTZ]"

section \<open>Package net/url\<close>

text \<open>
  \<open>url.Values\<close> is \<open>map[string][]string\<close>. A Go map is modelled as an association list
  with one entry per key; the order of the list has no meaning. Reading a missing key
  gives the zero value. \<open>Values.Encode\<close> sorts the keys before it reads the map, so no
  order of visiting reaches its result.
\<close>

type_synonym Values = "(string \<times> string list) list"

definition lookup :: "(string \<times> string list) list \<Rightarrow> string \<Rightarrow> string list" where
  "lookup m k = (case map_of m k of None \<Rightarrow> [] | Some vs \<Rightarrow> vs)"

text \<open>
  \<open>url.QueryEscape\<close>: letters, digits and \<open>- _ . ~\<close> are kept, a space becomes \<open>+\<close>, and
  every other byte becomes \<open>%XX\<close> with upper-case hexadecimal digits.
\<close>

definition shouldEscape :: "char \<Rightarrow> bool" where
  "shouldEscape c \<longleftrightarrow>
     \<not> ((CHR ''a'' \<le> c \<and> c \<le> CHR ''z'') \<or> (CHR ''A'' \<le> c \<and> c \<le> CHR ''Z'')
        \<or> (CHR ''0'' \<le> c \<and> c \<le> CHR ''9'')
        \<or> c = CHR ''-'' \<or> c = CHR ''_'' \<or> c = CHR ''.'' \<or> c = CHR ''~'')"

definition upperhex :: "nat \<Rightarrow> char" where
  "upperhex n = ''0123456789ABCDEF'' ! n"

definition escape_byte :: "char \<Rightarrow> string" where
  "escape_byte c =
     (if c = CHR '' '' then ''+''
      else if shouldEscape c then [CHR ''%'', upperhex (of_char c div 16), upperhex (of_char c mod 16)]
      else [c])"

definition QueryEscape :: "string \<Rightarrow> string" where
  "QueryEscape s = concat (map escape_byte s)"

text \<open>
  \<open>Values.Encode\<close>: the keys are sorted; for each key and each of its values in their
  stored order the buffer receives \<open>&\<close> (unless it is still empty), the escaped key,
  \<open>=\<close> and the escaped value.
\<close>

fun encode_values :: "string \<Rightarrow> string list \<Rightarrow> string \<Rightarrow> string" where
  "encode_values keyEscaped [] buf = buf"
| "encode_values keyEscaped (v # vs) buf =
     encode_values keyEscaped vs
       ((if 0 < length buf then buf @ ''&'' else buf) @ keyEscaped @ ''='' @ QueryEscape v)"

fun encode_keys :: "Values \<Rightarrow> string list \<Rightarrow> string \<Rightarrow> string" where
  "encode_keys v [] buf = buf"
| "encode_keys v (k # keys) buf = encode_keys v keys (encode_values (QueryEscape k) (lookup v k) buf)"

definition Encode :: "Values \<Rightarrow> string" where
  "Encode v = encode_keys v (sort (map fst v)) []"

text \<open>
  Of a \<open>*url.URL\<close> the code reads two things: the result of \<open>EscapedPath()\<close> and the
  result of \<open>Query()\<close>. A URL whose path is empty has the empty string as its escaped
  path.
\<close>

record URL =
  EscapedPath :: string
  Query :: Values

section \<open>Package net/http\<close>

text \<open>
  \<open>http.Header\<close> is \<open>map[string][]string\<close>; a nil map (\<open>None\<close>) can be read and ranged
  over like an empty one, and assigning to it panics. Of a \<open>http.Request\<close> the fields
  \<open>Method\<close>, \<open>URL\<close> (a pointer, nil is \<open>None\<close>), \<open>Header\<close>, \<open>Body\<close> and \<open>Host\<close> are kept;
  the body is the bytes that remain to be read from it. The functions of the package
  take a \<open>*http.Request\<close>, a pointer that may be nil: a \<open>Request option\<close>.
\<close>

type_synonym Header = "(string \<times> string list) list option"

record Request =
  Method :: string
  URL :: "URL option"
  Header :: Header
  Body :: "string option"
  Host :: string

datatype error = NilMapAssignment | NilPointerDereference

definition entries :: "Header \<Rightarrow> (string \<times> string list) list" where
  "entries h = (case h of None \<Rightarrow> [] | Some m \<Rightarrow> m)"

definition values_of :: "Header \<Rightarrow> string \<Rightarrow> string list" where
  "values_of h k = lookup (entries h) k"

text \<open>
  A \<open>range\<close> loop over a map visits every entry once, in an order that the run time
  chooses anew for every loop. Where that order can reach a result, the function takes
  the entries in the order of the visit as an argument \<open>visited\<close>; \<open>range_order\<close> says
  that a list is such an order for a header map.
\<close>

definition range_order :: "Header \<Rightarrow> (string \<times> string list) list \<Rightarrow> bool" where
  "range_order h visited \<longleftrightarrow> mset visited = mset (entries h)"

text \<open>\<open>h[key] = append(h[key], value)\<close> on the entries of a map.\<close>

fun append_value :: "(string \<times> string list) list \<Rightarrow> string \<Rightarrow> string \<Rightarrow> (string \<times> string list) list" where
  "append_value [] key v = [(key, [v])]"
| "append_value ((k, vs) # m) key v =
     (if k = key then (k, vs @ [v]) # m else (k, vs) # append_value m key v)"

text \<open>
  \<open>Header.Add(key, value)\<close> for a key that is already in canonical form, as both keys
  that \<open>Sign\<close> adds are (\<open>X-Amz-Date\<close> and \<open>Authorization\<close>).
\<close>

definition Add :: "Header \<Rightarrow> string \<Rightarrow> string \<Rightarrow> error + Header" where
  "Add h key v =
     (case h of None \<Rightarrow> Inl NilMapAssignment | Some m \<Rightarrow> Inr (Some (append_value m key v)))"

section \<open>awssign.go\<close>

definition algorithm :: string where "algorithm = ''AWS4-HMAC-SHA256''"
definition dateHeader :: string where "dateHeader = ''X-Amz-Date''"
definition dateFormat :: "chunk list" where
  "dateFormat = [stdLongYear, stdZeroMonth, stdZeroDay]"
definition dateTimeFormat :: "chunk list" where
  "dateTimeFormat = [stdLongYear, stdZeroMonth, stdZeroDay, Literal ''T'',
                     stdHour, stdZeroMinute, stdZeroSecond, Literal ''Z'']"
definition hostHeader :: string where "hostHeader = ''host''"
definition terminationString :: string where "terminationString = ''aws4_request''"

record Signer =
  Region :: string
  Service :: string
  AccessKeyID :: string
  AccessKeySecret :: string

definition newline :: string where "newline = [CHR 0x0A]"

definition calculateSignature :: "string \<Rightarrow> string \<Rightarrow> string" where
  "calculateSignature signingKey stringToSign =
     (let mac = hmac_New signingKey;
          mac = mac_Write mac stringToSign
      in EncodeToString (mac_Sum mac))"

definition deriveSigningKey :: "string \<Rightarrow> Time \<Rightarrow> string \<Rightarrow> string \<Rightarrow> string" where
  "deriveSigningKey awsKey date region service =
     (let kSecret = ''AWS4'' @ awsKey;
          mac = hmac_New kSecret;
          mac = mac_Write mac (Format date dateFormat);
          kDate = mac_Sum mac;
          mac = hmac_New kDate;
          mac = mac_Write mac region;
          kRegion = mac_Sum mac;
          mac = hmac_New kRegion;
          mac = mac_Write mac service;
          kService = mac_Sum mac;
          mac = hmac_New kService;
          mac = mac_Write mac terminationString
      in mac_Sum mac)"

text \<open>
  The same derivation, returning the local variables \<open>kDate\<close>, \<open>kRegion\<close> and
  \<open>kService\<close> together with the result.
\<close>

definition deriveSigningKey_locals :: "string \<Rightarrow> Time \<Rightarrow> string \<Rightarrow> string \<Rightarrow> string \<times> string \<times> string \<times> string" where
  "deriveSigningKey_locals awsKey date region service =
     (let kSecret = ''AWS4'' @ awsKey;
          mac = hmac_New kSecret;
          mac = mac_Write mac (Format date dateFormat);
          kDate = mac_Sum mac;
          mac = hmac_New kDate;
          mac = mac_Write mac region;
          kRegion = mac_Sum mac;
          mac = hmac_New kRegion;
          mac = mac_Write mac service;
          kService = mac_Sum mac;
          mac = hmac_New kService;
          mac = mac_Write mac terminationString
      in (kDate, kRegion, kService, mac_Sum mac))"

definition credentialScope :: "Time \<Rightarrow> string \<Rightarrow> string \<Rightarrow> string" where
  "credentialScope timestamp region service =
     Format timestamp dateFormat @ ''/'' @ region @ ''/'' @ service @ ''/'' @ terminationString"

definition stringToSign :: "Time \<Rightarrow> string \<Rightarrow> string \<Rightarrow> string \<Rightarrow> string" where
  "stringToSign timestamp region service hashedCanonicalRequest =
     (let buffer = [];
          buffer = buffer @ algorithm;
          buffer = buffer @ newline;
          buffer = buffer @ Format timestamp dateTimeFormat;
          buffer = buffer @ newline;
          buffer = buffer @ credentialScope timestamp region service;
          buffer = buffer @ newline;
          buffer = buffer @ hashedCanonicalRequest
      in buffer)"

definition hashedBody :: "string \<Rightarrow> string" where
  "hashedBody payload = EncodeToString (Sum256 payload)"

text \<open>
  The loop of \<open>signedHeaders\<close> appends the lower-cased names in the order of its visit,
  and \<open>sort.Strings\<close> then sorts them: the result is the same for every order of the
  visit (lemma \<open>signedHeaders_range_order\<close>), and the model takes the entries as listed.
\<close>

definition signedHeaders :: "Header \<Rightarrow> string" where
  "signedHeaders header =
     (let headerNames = map (\<lambda>(name, vs). ToLower name) (entries header);
          headerNames = headerNames @ [hostHeader];
          headerNames = sort headerNames
      in Join headerNames '';'')"

text \<open>
  The first loop of \<open>canonicalHeaders\<close> fills the map \<open>lowerCaseHeaders\<close> from the entries
  in the order \<open>visited\<close> of its visit; an entry visited later overwrites an earlier one
  with the same lower-case name, so for two names that agree up to case the order
  decides which values are kept. The second loop writes one line per name; a name that
  is not in the map reads as the empty string.
\<close>

fun lower_case_headers :: "(string \<times> string list) list \<Rightarrow> (string \<rightharpoonup> string) \<Rightarrow> (string \<rightharpoonup> string)" where
  "lower_case_headers [] m = m"
| "lower_case_headers ((name, vs) # rest) m =
     lower_case_headers rest (m(ToLower name \<mapsto> Join vs '' ''))"

definition index :: "(string \<rightharpoonup> string) \<Rightarrow> string \<Rightarrow> string" where
  "index m name = (case m name of None \<Rightarrow> [] | Some v \<Rightarrow> v)"

fun header_lines :: "(string \<rightharpoonup> string) \<Rightarrow> string list \<Rightarrow> string \<Rightarrow> string" where
  "header_lines m [] buffer = buffer"
| "header_lines m (name # names) buffer =
     header_lines m names (buffer @ name @ '':'' @ index m name @ newline)"

definition canonicalHeaders :: "Header \<Rightarrow> string \<Rightarrow> (string \<times> string list) list \<Rightarrow> string" where
  "canonicalHeaders header host visited =
     (let signedHeaders = signedHeaders header;
          lowerCaseHeaders = lower_case_headers visited Map.empty;
          lowerCaseHeaders = lowerCaseHeaders(hostHeader \<mapsto> host);
          headerNames = Split signedHeaders (CHR '';'');
          buffer = header_lines lowerCaseHeaders headerNames [];
          buffer = buffer @ newline;
          buffer = buffer @ signedHeaders
      in buffer)"

text \<open>
  \<open>request.Method\<close> dereferences the request pointer and \<open>request.URL.EscapedPath()\<close>
  the URL pointer: a nil request panics, and so does a nil URL.
\<close>

definition canonicalString :: "Request option \<Rightarrow> string \<Rightarrow> (string \<times> string list) list \<Rightarrow> error + string" where
  "canonicalString request payload visited =
     (case request of
        None \<Rightarrow> Inl NilPointerDereference
      | Some request \<Rightarrow>
          (case URL request of
             None \<Rightarrow> Inl NilPointerDereference
           | Some u \<Rightarrow>
               (let buffer = [];
                    buffer = buffer @ Method request;
                    buffer = buffer @ newline;
                    buffer = buffer @ EscapedPath u;
                    buffer = buffer @ newline;
                    buffer = buffer @ Encode (Query u);
                    buffer = buffer @ newline;
                    buffer = buffer @ canonicalHeaders (Header request) (Host request) visited;
                    buffer = buffer @ newline;
                    buffer = buffer @ hashedBody payload
                in Inr buffer)))"

definition AWSSignature :: "Request option \<Rightarrow> string \<Rightarrow> Time \<Rightarrow> string \<Rightarrow> string \<Rightarrow> string \<Rightarrow> (string \<times> string list) list \<Rightarrow> error + string" where
  "AWSSignature request payload timestamp region service key visited =
     (case canonicalString request payload visited of
        Inl e \<Rightarrow> Inl e
      | Inr string \<Rightarrow>
          (let hashed = EncodeToString (Sum256 string);
               stringToSign = stringToSign timestamp region service hashed;
               signingKey = deriveSigningKey key timestamp region service
           in Inr (calculateSignature signingKey stringToSign)))"

text \<open>
  \<open>Sign\<close> changes the request it is given. The model takes the instant that
  \<open>time.Now().UTC()\<close> returns as \<open>timestamp\<close> and returns the request as the call leaves
  it, with the panic that ended the call, if any. The receiver and the request are
  pointers: \<open>request.Header\<close> panics for a nil request before anything is done, and
  \<open>signer.AccessKeyID\<close> panics for a nil receiver after the date header has been added.
  \<open>visited\<close> is the order in which the loop of \<open>canonicalHeaders\<close> visits the header map,
  which by then holds the date header.
\<close>

definition authorization :: "string \<Rightarrow> string \<Rightarrow> string \<Rightarrow> string" where
  "authorization credential names signature =
     algorithm @ '', Credential='' @ credential @ '', SignedHeaders='' @ names
       @ '', Signature='' @ signature"

definition Sign :: "Signer option \<Rightarrow> Time \<Rightarrow> Request option \<Rightarrow> string \<Rightarrow> (string \<times> string list) list \<Rightarrow> Request option \<times> error option" where
  "Sign signer timestamp request payload visited =
     (case request of
        None \<Rightarrow> (None, Some NilPointerDereference)
      | Some request \<Rightarrow>
          (case Add (Header request) dateHeader (Format timestamp RFC3339) of
             Inl e \<Rightarrow> (Some request, Some e)
           | Inr h \<Rightarrow>
               (let request = request\<lparr>Header := h\<rparr>;
                    signedHeaders = signedHeaders (Header request)
                in case signer of
                     None \<Rightarrow> (Some request, Some NilPointerDereference)
                   | Some signer \<Rightarrow>
                       (let credential = AccessKeyID signer @ ''/''
                              @ credentialScope timestamp (Region signer) (Service signer)
                        in case AWSSignature (Some request) payload timestamp (Region signer)
                                  (Service signer) (AccessKeySecret signer) visited of
                             Inl e \<Rightarrow> (Some request, Some e)
                           | Inr signature \<Rightarrow>
                               (case Add (Header request) ''Authorization''
                                       (authorization credential signedHeaders signature) of
                                  Inl e \<Rightarrow> (Some request, Some e)
                                | Inr h' \<Rightarrow> (Some (request\<lparr>Header := h'\<rparr>), None))))))"

section \<open>The request of the README and of the tests\<close>

text \<open>
  The instant, credentials and request that the README and the tests use:
  \<open>time.Date(2015, 8, 30, 12, 36, 0, 0, time.UTC)\<close>, a \<open>GET\<close> of
  \<open>https://iam.amazonaws.com/?Action=ListUsers&Version=2010-05-08\<close> with a
  \<open>Content-Type\<close> header. \<open>fakeRequest\<close> of the tests also carries the header
  \<open>X-Amz-Date: 20150830T123600Z\<close> of the published test vector.
\<close>

definition test_time :: Time where
  "test_time = \<lparr>Year = 2015, Month = 8, Day = 30, Hour = 12, Minute = 36, Second = 0\<rparr>"

definition test_awsKey :: string where
  "test_awsKey = ''wJalrXUtnFEMI/K7MDENG+bPxRfiCYEXAMPLEKEY''"

definition test_signer :: Signer where
  "test_signer = \<lparr>Region = ''us-east-1'', Service = ''iam'', AccessKeyID = ''AKIDEXAMPLE'',
                   AccessKeySecret = test_awsKey\<rparr>"

definition test_url :: URL where
  "test_url = \<lparr>EscapedPath = ''/'',
                Query = [(''Action'', [''ListUsers'']), (''Version'', [''2010-05-08''])]\<rparr>"

definition readmeRequest :: Request where
  "readmeRequest =
     \<lparr>Method = ''GET'', URL = Some test_url,
      Header = Some [(''Content-Type'', [''application/x-www-form-urlencoded; charset=utf-8''])],
      Body = None, Host = ''iam.amazonaws.com''\<rparr>"

definition fakeRequest :: Request where
  "fakeRequest =
     \<lparr>Method = ''GET'', URL = Some test_url,
      Header = Some [(''X-Amz-Date'', [''20150830T123600Z'']),
                     (''Content-Type'', [''application/x-www-form-urlencoded; charset=utf-8''])],
      Body = None, Host = ''iam.amazonaws.com''\<rparr>"

text \<open>
  The header map of the README request as \<open>Sign\<close> leaves it for \<open>canonicalHeaders\<close> at
  the instant of the tests, in one order of visiting.
\<close>

definition readme_visited :: "(string \<times> string list) list" where
  "readme_visited = [(''Content-Type'', [''application/x-www-form-urlencoded; charset=utf-8'']),
                     (''X-Amz-Date'', [''2015-08-30T12:36:00Z''])]"

text \<open>
  The values of the published test vector, as the tests expect them: the four
  keys of the derivation for the service \<open>iam\<close>, the canonical request and the string
  to sign of \<open>fakeRequest\<close>; and the last two keys for the service \<open>ses\<close>.
\<close>

definition test_kDate :: string where
  "test_kDate = from_hex ''0138c7a6cbd60aa727b2f653a522567439dfb9f3e72b21f9b25941a42f04a7cd''"
definition test_kRegion :: string where
  "test_kRegion = from_hex ''f33d5808504bf34812e5fade63308b424b244c59189be2a591dd2282c7cb563f''"
definition test_kService :: string where
  "test_kService = from_hex ''199e1f48c602a5ae77ce26a46906920e76fc8427aeaa53da643646fcda1ccfb0''"
definition test_kSigning :: string where
  "test_kSigning = from_hex ''c4afb1cc5771d871763a393e44b703571b55cc28424d1a5e86da6ed3c154a4b9''"

definition fake_canonical :: string where
  "fake_canonical = ''GET\<newline>/\<newline>Action=ListUsers&Version=2010-05-08\<newline>content-type:application/x-www-form-urlencoded; charset=utf-8\<newline>host:iam.amazonaws.com\<newline>x-amz-date:20150830T123600Z\<newline>\<newline>content-type;host;x-amz-date\<newline>e3b0c44298fc1c149afbf4c8996fb92427ae41e4649b934ca495991b7852b855''"

definition fake_stringToSign :: string where
  "fake_stringToSign = ''AWS4-HMAC-SHA256\<newline>20150830T123600Z\<newline>20150830/us-east-1/iam/aws4_request\<newline>f536975d06c0309214f805bb90ccff089219ecd68b2577efef23edd43b7e1a59''"

definition ses_kService :: string where
  "ses_kService = from_hex ''6d4156400aba7490c0ec08021063b47f9dde10d819483a2f1b944c54b3554267''"
definition ses_kSigning :: string where
  "ses_kSigning = from_hex ''014f8b93dc29e3ee7ef062512b3883d17b978ea40bcb697e6e861e81a8a5a60b''"


text \<open>
  The README request with the query \<open>a=2&a=1\<close>, which \<open>request.URL.Query()\<close> parses
  into the one name \<open>a\<close> with the values \<open>2\<close> and \<open>1\<close> in that order.
\<close>

definition repeatedNameRequest :: Request where
  "repeatedNameRequest =
     readmeRequest\<lparr>URL := Some \<lparr>EscapedPath = ''/'', Query = [(''a'', [''2'', ''1''])]\<rparr>\<rparr>"

section \<open>Statements of the specification\<close>

text \<open>
  The specification re-runs the Header Canonicalizer "on its own output (treating
  signed-header names as the new header set)": the names of a semicolon-joined list,
  as the keys of a header map, each name once and without values.
\<close>

definition names_as_header :: "string \<Rightarrow> Header" where
  "names_as_header s = Some (map (\<lambda>name. (name, [])) (remdups (Split s (CHR '';''))))"

text \<open>
  The specification's canonical query string: "every parameter name and value
  percent-encoded per standard URI component encoding, then parameters sorted by name
  (ties broken by value) and joined as \<open>name=value\<close> pairs with \<open>&\<close>". The standard
  encoding of a URI component (RFC 3986) keeps the unreserved bytes, which are the
  letters, the digits and \<open>- . _ ~\<close>, and writes every other byte, a space too, as \<open>%\<close>
  and two upper-case hexadecimal digits. The order on pairs is the lexicographic one
  of \<open>Product_Lexorder\<close>.
\<close>

definition unreserved :: "char \<Rightarrow> bool" where
  "unreserved c \<longleftrightarrow>
     (CHR ''A'' \<le> c \<and> c \<le> CHR ''Z'') \<or> (CHR ''a'' \<le> c \<and> c \<le> CHR ''z'')
     \<or> (CHR ''0'' \<le> c \<and> c \<le> CHR ''9'') \<or> c \<in> set ''-._~''"

definition percent_encode :: "string \<Rightarrow> string" where
  "percent_encode s =
     concat (map (\<lambda>c. if unreserved c then [c]
                       else [CHR ''%'', ''0123456789ABCDEF'' ! (of_char c div 16),
                             ''0123456789ABCDEF'' ! (of_char c mod 16)]) s)"

definition query_by_name_then_value :: "Values \<Rightarrow> string" where
  "query_by_name_then_value q =
     Join (map (\<lambda>(name, v). name @ ''='' @ v)
             (sort (concat (map (\<lambda>(name, vs). map (\<lambda>v. (percent_encode name, percent_encode v)) vs) q))))
          ''&''"


section \<open>Equations for evaluation\<close>

text \<open>
  Equal forms of the word operations that the simplifier evaluates faster: \<open>wrap32\<close>
  for the sum of two words, \<open>rot\<close> for a rotation, one disjunction less in \<open>maj\<close>, and
  the message schedule on a window of sixteen words.
\<close>

lemma wrap32_eq: "wrap32 s = take_bit 32 s"
proof -
  have "take_bit 32 s = s" if "0 \<le> s" "s < 4294967296"
    using that by (simp add: take_bit_int_eq_self)
  moreover have "take_bit 32 s = s - 4294967296" if "4294967296 \<le> s" "s < 8589934592"
  proof -
    have "take_bit 32 (s - 4294967296) = s - 4294967296"
      using that by (simp add: take_bit_int_eq_self)
    moreover have "take_bit 32 (s - 4294967296) = take_bit 32 s"
      by (simp add: take_bit_eq_mod)
    ultimately show ?thesis by simp
  qed
  ultimately show ?thesis
    by (simp add: wrap32_def)
qed

lemma add32_code [code]: "add32 a b = wrap32 (a + b)"
  by (simp add: add32_def wrap32_eq)

lemma rotr_rot:
  assumes "n \<le> 32"
  shows "rotr n x = rot n (32 - n) (mask n) x"
proof -
  have "take_bit 32 (push_bit (32 - n) x) = push_bit (32 - n) (take_bit n x)"
    using assms by (simp add: take_bit_push_bit)
  moreover have "take_bit n x = x AND mask n"
    by (rule take_bit_eq_mask)
  ultimately show ?thesis
    by (simp only: rotr_def rot_def)
qed

lemma bsig0_code [code]: "bsig0 a = rot 2 30 3 a XOR rot 13 19 8191 a XOR rot 22 10 4194303 a"
  by (simp add: bsig0_def rotr_rot mask_eq_exp_minus_1)

lemma bsig1_code [code]: "bsig1 e = rot 6 26 63 e XOR rot 11 21 2047 e XOR rot 25 7 33554431 e"
  by (simp add: bsig1_def rotr_rot mask_eq_exp_minus_1)

lemma ssig0_code [code]: "ssig0 v = rot 7 25 127 v XOR rot 18 14 262143 v XOR drop_bit 3 v"
  by (simp add: ssig0_def rotr_rot mask_eq_exp_minus_1)

lemma ssig1_code [code]: "ssig1 v = rot 17 15 131071 v XOR rot 19 13 524287 v XOR drop_bit 10 v"
  by (simp add: ssig1_def rotr_rot mask_eq_exp_minus_1)

lemma rounds_code [code]:
  "rounds [] w s = s"
  "rounds (k # ks) [w0, w1, w2, w3, w4, w5, w6, w7, w8, w9, w10, w11, w12, w13, w14, w15] s
     = rounds ks [w1, w2, w3, w4, w5, w6, w7, w8, w9, w10, w11, w12, w13, w14, w15,
                  add32 (add32 (add32 (ssig1 w14) w9) (ssig0 w1)) w0]
         (round1 k w0 s)"
  by (simp_all add: next_w_def)

lemma maj_code [code]: "maj a b c = (a AND b) OR (c AND (a OR b))"
  unfolding maj_def
  by (rule bit_eqI) (auto simp: bit_and_iff bit_or_iff bit_xor_iff)

section \<open>Header maps and time formats\<close>

lemma map_of_append_value:
  "map_of (append_value m key v) k = (if k = key then Some (lookup m key @ [v]) else map_of m k)"
  by (induction m key v rule: append_value.induct) (auto simp: lookup_def)

lemma lookup_append_value:
  "lookup (append_value m key v) k = (if k = key then lookup m key @ [v] else lookup m k)"
  by (simp add: lookup_def map_of_append_value)

lemma header_names_distinct: "dateHeader \<noteq> ''Authorization''"
  by (simp add: dateHeader_def)

lemma length_Format_RFC3339:
  "length (Format t RFC3339) = length (Format t dateTimeFormat) + 4"
  by (simp add: Format_def RFC3339_def dateTimeFormat_def)

lemma Format_RFC3339_neq: "Format t RFC3339 \<noteq> Format t dateTimeFormat"
  using length_Format_RFC3339 [of t] by auto

lemma Format_test_time_RFC3339: "Format test_time RFC3339 = ''2015-08-30T12:36:00Z''"
  by code_simp

lemma Format_test_time_dateTimeFormat: "Format test_time dateTimeFormat = ''20150830T123600Z''"
  by code_simp

lemma Format_test_time_dateFormat: "Format test_time dateFormat = ''20150830''"
  by code_simp

section \<open>The order of a visit\<close>

lemma sort_mset_eq: "mset xs = mset ys \<Longrightarrow> sort xs = sort ys"
  by (metis mset_sort properties_for_sort sorted_sort)

lemma signedHeaders_eq:
  "signedHeaders header
     = Join (sort (map (\<lambda>(name, vs). ToLower name) (entries header) @ [hostHeader])) '';''"
  by (simp add: signedHeaders_def)

text \<open>The names are sorted: \<open>signedHeaders\<close> is the same for every order of its visit.\<close>

lemma signedHeaders_range_order:
  assumes "range_order header visited"
  shows "signedHeaders (Some visited) = signedHeaders header"
proof -
  have "mset (map (\<lambda>(name, vs). ToLower name) visited @ [hostHeader])
          = mset (map (\<lambda>(name, vs). ToLower name) (entries header) @ [hostHeader])"
    using assms by (simp add: range_order_def)
  then have "sort (map (\<lambda>(name, vs). ToLower name) visited @ [hostHeader])
          = sort (map (\<lambda>(name, vs). ToLower name) (entries header) @ [hostHeader])"
    by (rule sort_mset_eq)
  then show ?thesis
    by (simp add: signedHeaders_eq entries_def)
qed

lemma lower_case_headers_eq:
  "lower_case_headers xs m
     = m ++ map_of (rev (map (\<lambda>(name, vs). (ToLower name, Join vs '' '')) xs))"
proof (induction xs arbitrary: m)
  case Nil
  then show ?case by simp
next
  case (Cons a xs)
  obtain name vs where a: "a = (name, vs)" by (cases a)
  have "m(ToLower name \<mapsto> Join vs '' '') = m ++ [ToLower name \<mapsto> Join vs '' '']"
    by simp
  then show ?case
    unfolding a by (simp add: Cons.IH del: map_add_upd)
qed

text \<open>
  When no two names of the map agree up to case, no entry of \<open>lowerCaseHeaders\<close> is
  overwritten, and the map is the same for every order of the visit.
\<close>

lemma lower_case_headers_range_order:
  assumes "distinct (map (\<lambda>(name, vs). ToLower name) (entries header))"
    and "range_order header visited"
  shows "lower_case_headers visited Map.empty = lower_case_headers (entries header) Map.empty"
proof -
  let ?f = "\<lambda>(name, vs). (ToLower name, Join vs '' '')"
  have keys: "map fst (map ?f xs) = map (\<lambda>(name, vs). ToLower name) xs"
    for xs :: "(string \<times> string list) list"
    by (induction xs) auto
  have m: "mset visited = mset (entries header)"
    using assms(2) by (simp add: range_order_def)
  then have "mset (map (\<lambda>(name, vs). ToLower name) visited)
           = mset (map (\<lambda>(name, vs). ToLower name) (entries header))"
    by simp
  then have "distinct (map (\<lambda>(name, vs). ToLower name) visited)"
    using assms(1) by (metis mset_eq_imp_distinct_iff)
  then have "distinct (map fst (map ?f visited))"
    by (simp only: keys)
  then have d1: "distinct (map fst (rev (map ?f visited)))"
    by (simp only: rev_map [symmetric] distinct_rev)
  have "distinct (map fst (map ?f (entries header)))"
    using assms(1) by (simp only: keys)
  then have d2: "distinct (map fst (rev (map ?f (entries header))))"
    by (simp only: rev_map [symmetric] distinct_rev)
  have "set visited = set (entries header)"
    using m by (rule mset_eq_setD)
  then have s: "set (rev (map ?f visited)) = set (rev (map ?f (entries header)))"
    by (simp only: set_rev set_map)
  have "map_of (rev (map ?f visited)) = map_of (rev (map ?f (entries header)))"
    using map_of_inject_set [OF d1 d2] s by blast
  then show ?thesis
    by (simp only: lower_case_headers_eq)
qed

lemma canonicalHeaders_range_order:
  assumes "distinct (map (\<lambda>(name, vs). ToLower name) (entries header))"
    and "range_order header visited"
  shows "canonicalHeaders header host visited = canonicalHeaders header host (entries header)"
  by (simp only: canonicalHeaders_def lower_case_headers_range_order [OF assms])

section \<open>Sign\<close>

text \<open>The ways in which a call of \<open>Sign\<close> ends.\<close>

lemma Sign_cases:
  "Sign signer timestamp request payload visited =
     (case request of
        None \<Rightarrow> (None, Some NilPointerDereference)
      | Some r \<Rightarrow>
          (case Header r of
             None \<Rightarrow> (Some r, Some NilMapAssignment)
           | Some m \<Rightarrow>
               (let m1 = append_value m dateHeader (Format timestamp RFC3339);
                    r1 = r\<lparr>Header := Some m1\<rparr>
                in case signer of
                     None \<Rightarrow> (Some r1, Some NilPointerDereference)
                   | Some s \<Rightarrow>
                       (case AWSSignature (Some r1) payload timestamp (Region s) (Service s)
                               (AccessKeySecret s) visited of
                          Inl e \<Rightarrow> (Some r1, Some e)
                        | Inr signature \<Rightarrow>
                            (Some (r1\<lparr>Header := Some (append_value m1 ''Authorization''
                                (authorization
                                   (AccessKeyID s @ ''/''
                                      @ credentialScope timestamp (Region s) (Service s))
                                   (signedHeaders (Some m1)) signature))\<rparr>), None)))))"
  by (simp add: Sign_def Add_def Let_def split: option.splits sum.splits)

lemma Sign_date_header:
  "Header request = Some m \<Longrightarrow>
   \<exists>request'. fst (Sign signer timestamp (Some request) payload visited) = Some request'
     \<and> values_of (Header request') dateHeader = lookup m dateHeader @ [Format timestamp RFC3339]"
proof -
  assume m: "Header request = Some m"
  let ?r1 = "request\<lparr>Header := Some (append_value m dateHeader (Format timestamp RFC3339))\<rparr>"
  have date: "values_of (Header ?r1) dateHeader = lookup m dateHeader @ [Format timestamp RFC3339]"
    by (simp add: values_of_def entries_def lookup_append_value)
  show ?thesis
  proof (cases signer)
    case None
    then show ?thesis
      using m date by (simp add: Sign_cases Let_def)
  next
    case (Some s)
    show ?thesis
    proof (cases "AWSSignature (Some ?r1) payload timestamp (Region s) (Service s)
        (AccessKeySecret s) visited")
      case (Inl e)
      then show ?thesis
        using m date Some by (simp add: Sign_cases Let_def)
    next
      case (Inr signature)
      then show ?thesis
        using m Some header_names_distinct date
        by (simp add: Sign_cases Let_def values_of_def entries_def lookup_append_value)
    qed
  qed
qed

text \<open>
  C1. The claim: the value that \<open>Sign\<close> attaches as the date header is byte for byte the
  timestamp inside the string to sign, both in the compact form \<open>YYYYMMDDTHHMMSSZ\<close>.
  The code formats the header with \<open>time.RFC3339\<close> and the string to sign with
  \<open>dateTimeFormat\<close>. At 2015-08-30 12:36:00 UTC the header of the README request
  receives \<open>2015-08-30T12:36:00Z\<close> while the string to sign holds \<open>20150830T123600Z\<close>,
  and the two renderings differ at every instant.
\<close>

theorem Sign_date_header_not_compact:
  "(\<exists>request'. fst (Sign signer test_time (Some readmeRequest) payload visited) = Some request'
       \<and> values_of (Header request') dateHeader = [''2015-08-30T12:36:00Z''])
   \<and> take 34 (stringToSign test_time region service hashed)
     = ''AWS4-HMAC-SHA256\<newline>20150830T123600Z\<newline>''
   \<and> (\<forall>t. Format t RFC3339 \<noteq> Format t dateTimeFormat)"
proof -
  have "Header readmeRequest
          = Some [(''Content-Type'', [''application/x-www-form-urlencoded; charset=utf-8''])]"
    by (simp add: readmeRequest_def)
  from Sign_date_header [OF this, of signer test_time payload visited]
  have "\<exists>request'. fst (Sign signer test_time (Some readmeRequest) payload visited) = Some request'
       \<and> values_of (Header request') dateHeader = [''2015-08-30T12:36:00Z'']"
    by (simp add: lookup_def dateHeader_def Format_test_time_RFC3339)
  moreover have "take 34 (stringToSign test_time region service hashed)
     = ''AWS4-HMAC-SHA256\<newline>20150830T123600Z\<newline>''"
    by (simp add: stringToSign_def Let_def algorithm_def newline_def
        Format_test_time_dateTimeFormat)
  ultimately show ?thesis
    using Format_RFC3339_neq by blast
qed

text \<open>
  C9. \<open>Sign\<close> leaves the method, the URL, the body and the host of the request as they
  were, and every header entry other than \<open>X-Amz-Date\<close> and \<open>Authorization\<close>; the values
  of every header name are kept as a prefix. When the call returns without a panic, each
  of the two names has gained exactly one value at the end: the date, and the
  authorization string. This holds for every receiver, nil or not, and for every order
  in which the header map is visited.
\<close>

theorem Sign_frame:
  "(case Sign signer timestamp (Some request) payload visited of
      (None, e) \<Rightarrow> False
    | (Some request', e) \<Rightarrow>
        Method request' = Method request \<and> URL request' = URL request
        \<and> Body request' = Body request \<and> Host request' = Host request
        \<and> (\<forall>k. k \<noteq> dateHeader \<and> k \<noteq> ''Authorization'' \<longrightarrow>
               map_of (entries (Header request')) k = map_of (entries (Header request)) k)
        \<and> (\<forall>k. \<exists>vs. values_of (Header request') k = values_of (Header request) k @ vs)
        \<and> (e = None \<longrightarrow>
              values_of (Header request') dateHeader
                = values_of (Header request) dateHeader @ [Format timestamp RFC3339]
              \<and> (\<exists>credential names signature.
                    values_of (Header request') ''Authorization''
                      = values_of (Header request) ''Authorization''
                          @ [authorization credential names signature])))"
proof (cases "Header request")
  case None
  then show ?thesis
    by (simp add: Sign_cases)
next
  case (Some m)
  let ?m1 = "append_value m dateHeader (Format timestamp RFC3339)"
  let ?r1 = "request\<lparr>Header := Some ?m1\<rparr>"
  show ?thesis
  proof (cases signer)
    case None
    then show ?thesis
      using Some
      by (auto simp: Sign_cases Let_def entries_def values_of_def lookup_append_value
          map_of_append_value)
  next
    case signer: (Some s)
    show ?thesis
    proof (cases "AWSSignature (Some ?r1) payload timestamp (Region s) (Service s)
        (AccessKeySecret s) visited")
      case (Inl e)
      then show ?thesis
        using Some signer
        by (auto simp: Sign_cases Let_def entries_def values_of_def lookup_append_value
            map_of_append_value)
    next
      case (Inr signature)
      have "\<exists>credential names sig.
              authorization (AccessKeyID s @ ''/'' @ credentialScope timestamp (Region s) (Service s))
                (signedHeaders (Some ?m1)) signature
              = authorization credential names sig"
        by blast
      then show ?thesis
        using Some signer Inr header_names_distinct
        by (simp add: Sign_cases Let_def entries_def values_of_def lookup_append_value
            map_of_append_value)
    qed
  qed
qed

theorem Sign_frame_witness:
  "\<exists>request'. fst (Sign (Some test_signer) test_time (Some readmeRequest) [] readme_visited)
                 = Some request'
     \<and> Method request' = ''GET'' \<and> Host request' = ''iam.amazonaws.com''
     \<and> URL request' = Some test_url \<and> Body request' = None
     \<and> map_of (entries (Header request')) ''Content-Type''
         = Some [''application/x-www-form-urlencoded; charset=utf-8'']"
proof -
  obtain r e where S: "Sign (Some test_signer) test_time (Some readmeRequest) [] readme_visited = (r, e)"
    by (cases "Sign (Some test_signer) test_time (Some readmeRequest) [] readme_visited")
  have name: "''Content-Type'' \<noteq> dateHeader \<and> ''Content-Type'' \<noteq> ''Authorization''"
    by (simp add: dateHeader_def)
  from Sign_frame [where signer = "Some test_signer" and timestamp = test_time
      and request = readmeRequest and payload = "[]" and visited = readme_visited] S
  obtain request' where "r = Some request'"
    and "Method request' = Method readmeRequest" and "URL request' = URL readmeRequest"
    and "Body request' = Body readmeRequest" and "Host request' = Host readmeRequest"
    and "\<forall>k. k \<noteq> dateHeader \<and> k \<noteq> ''Authorization'' \<longrightarrow>
           map_of (entries (Header request')) k = map_of (entries (Header readmeRequest)) k"
    by (cases r) simp_all
  then show ?thesis
    using S name by (simp add: readmeRequest_def entries_def)
qed

section \<open>The Header Canonicalizer\<close>

text \<open>
  C4. The claim: for every header map and host, every name is lower-cased, \<open>host\<close> is in
  the signed-header list exactly once, and the value of a \<open>host\<close> header of the caller is
  replaced by the transport host. The code: \<open>signedHeaders\<close> appends \<open>host\<close> to the
  names without looking whether one of them is \<open>host\<close> already. For a header map with
  the one key \<open>Host\<close> the list is \<open>host;host\<close>: \<open>host\<close> is signed twice, and the canonical
  headers block has two \<open>host\<close> lines. Both lines carry the transport host, because the
  map of the values is keyed by the lower-cased name and \<open>lowerCaseHeaders[hostHeader]\<close>
  is assigned last; the list of names has no such treatment.
\<close>

theorem host_listed_twice:
  "signedHeaders (Some [(''Host'', [''example.org''])]) = ''host;host''
   \<and> Split (signedHeaders (Some [(''Host'', [''example.org''])])) (CHR '';'') = [''host'', ''host'']
   \<and> canonicalHeaders (Some [(''Host'', [''example.org''])]) ''iam.amazonaws.com''
         [(''Host'', [''example.org''])]
       = ''host:iam.amazonaws.com\<newline>host:iam.amazonaws.com\<newline>\<newline>host;host''"
  by code_simp

text \<open>
  C7. The claim: taking the names of the signed-header list as a new header set and
  computing the list again gives the same list. The code appends \<open>host\<close> on every run,
  also to names that contain it, as the names of its own result always do. For the
  headers of \<open>fakeRequest\<close> the list is \<open>content-type;host;x-amz-date\<close>, and computed
  again from these three names it is \<open>content-type;host;host;x-amz-date\<close>; for a map
  without entries \<open>host\<close> becomes \<open>host;host\<close>.
\<close>

theorem signedHeaders_rerun_differs:
  "signedHeaders (Header fakeRequest) = ''content-type;host;x-amz-date''
   \<and> names_as_header ''content-type;host;x-amz-date''
       = Some [(''content-type'', []), (''host'', []), (''x-amz-date'', [])]
   \<and> signedHeaders (Some [(''content-type'', []), (''host'', []), (''x-amz-date'', [])])
       = ''content-type;host;host;x-amz-date''
   \<and> signedHeaders (Some []) = ''host''
   \<and> names_as_header ''host'' = Some [(''host'', [])]
   \<and> signedHeaders (Some [(''host'', [])]) = ''host;host''"
  by code_simp

section \<open>The Canonical Request Builder\<close>

lemma length_be_bytes: "length (be_bytes n v) = n"
  by (simp add: be_bytes_def)

lemma length_digest_bytes: "length (digest_bytes s) = 32"
  by (cases s rule: digest_bytes.cases) (simp add: length_be_bytes)

lemma length_Sum256: "length (Sum256 m) = 32"
  by (simp add: Sum256_def length_digest_bytes)








lemma canonicalString_cases:
  "canonicalString request payload visited =
     (case request of
        None \<Rightarrow> Inl NilPointerDereference
      | Some r \<Rightarrow>
          (case URL r of
             None \<Rightarrow> Inl NilPointerDereference
           | Some u \<Rightarrow> Inr (Method r @ newline @ EscapedPath u @ newline @ Encode (Query u) @ newline
                          @ canonicalHeaders (Header r) (Host r) visited @ newline
                          @ hashedBody payload)))"
  by (simp add: canonicalString_def Let_def split: option.splits)

lemma AWSSignature_cases:
  "AWSSignature request payload timestamp region service key visited =
     (case canonicalString request payload visited of
        Inl e \<Rightarrow> Inl e
      | Inr string \<Rightarrow>
          Inr (calculateSignature (deriveSigningKey key timestamp region service)
                 (stringToSign timestamp region service (EncodeToString (Sum256 string)))))"
  by (simp add: AWSSignature_def Let_def split: sum.splits)

lemma Sum256_empty:
  "EncodeToString (Sum256 []) = ''e3b0c44298fc1c149afbf4c8996fb92427ae41e4649b934ca495991b7852b855''"
  by code_simp

lemma canonicalHeaders_readmeRequest:
  "canonicalHeaders (Header readmeRequest) (Host readmeRequest) (entries (Header readmeRequest))
     = ''content-type:application/x-www-form-urlencoded; charset=utf-8\<newline>host:iam.amazonaws.com\<newline>\<newline>content-type;host''"
  by code_simp

text \<open>
  C5. The claim: the canonical request is the method, the escaped path, the canonical
  query string, the canonical headers block and the hexadecimal SHA-256 of the payload,
  joined by newlines, where the query string has the parameters percent-encoded and
  sorted by name, ties broken by value. The code writes what \<open>Values.Encode\<close> returns,
  which sorts the names only and escapes with \<open>QueryEscape\<close>. For the README request
  with the query \<open>a=2&a=1\<close> the third line of the canonical request is \<open>a=2&a=1\<close>, where
  the order by name and then value is \<open>a=1&a=2\<close>; and a space in a value is written as
  \<open>+\<close> where the percent-encoding is \<open>%20\<close>.
\<close>

theorem query_values_keep_their_order:
  "canonicalString (Some repeatedNameRequest) [] (entries (Header repeatedNameRequest))
     = Inr ''GET\<newline>/\<newline>a=2&a=1\<newline>content-type:application/x-www-form-urlencoded; charset=utf-8\<newline>host:iam.amazonaws.com\<newline>\<newline>content-type;host\<newline>e3b0c44298fc1c149afbf4c8996fb92427ae41e4649b934ca495991b7852b855''
   \<and> Encode [(''a'', [''2'', ''1''])] = ''a=2&a=1''
   \<and> query_by_name_then_value [(''a'', [''2'', ''1''])] = ''a=1&a=2''
   \<and> Encode [(''b'', [''x y''])] = ''b=x+y''
   \<and> query_by_name_then_value [(''b'', [''x y''])] = ''b=x%20y''"
proof -
  have "URL repeatedNameRequest = Some \<lparr>EscapedPath = ''/'', Query = [(''a'', [''2'', ''1''])]\<rparr>"
    and "Method repeatedNameRequest = ''GET''"
    and "Header repeatedNameRequest = Header readmeRequest"
    and "Host repeatedNameRequest = Host readmeRequest"
    by (simp_all add: repeatedNameRequest_def readmeRequest_def)
  moreover have enc: "Encode [(''a'', [''2'', ''1''])] = ''a=2&a=1''"
    by code_simp
  ultimately have "canonicalString (Some repeatedNameRequest) [] (entries (Header repeatedNameRequest))
     = Inr ''GET\<newline>/\<newline>a=2&a=1\<newline>content-type:application/x-www-form-urlencoded; charset=utf-8\<newline>host:iam.amazonaws.com\<newline>\<newline>content-type;host\<newline>e3b0c44298fc1c149afbf4c8996fb92427ae41e4649b934ca495991b7852b855''"
    by (simp add: canonicalString_cases canonicalHeaders_readmeRequest hashedBody_def
        Sum256_empty newline_def)
  moreover have "query_by_name_then_value [(''a'', [''2'', ''1''])] = ''a=1&a=2''"
    by code_simp
  moreover have "Encode [(''b'', [''x y''])] = ''b=x+y''"
    by code_simp
  moreover have "query_by_name_then_value [(''b'', [''x y''])] = ''b=x%20y''"
    by code_simp
  ultimately show ?thesis
    using enc by simp
qed


lemma Encode_test_url: "Encode (Query test_url) = ''Action=ListUsers&Version=2010-05-08''"
  by code_simp

lemma canonicalHeaders_fakeRequest:
  "canonicalHeaders (Header fakeRequest) (Host fakeRequest) (entries (Header fakeRequest))
     = ''content-type:application/x-www-form-urlencoded; charset=utf-8\<newline>host:iam.amazonaws.com\<newline>x-amz-date:20150830T123600Z\<newline>\<newline>content-type;host;x-amz-date''"
  by code_simp

lemma fakeRequest_names: "distinct (map (\<lambda>(name, vs). ToLower name) (entries (Header fakeRequest)))"
  by code_simp

lemma canonicalString_fakeRequest:
  assumes "range_order (Header fakeRequest) visited"
  shows "canonicalString (Some fakeRequest) [] visited = Inr fake_canonical"
proof -
  have "URL fakeRequest = Some test_url" and "Method fakeRequest = ''GET''"
    and "EscapedPath test_url = ''/''"
    by (simp_all add: fakeRequest_def test_url_def)
  then show ?thesis
    by (simp add: canonicalString_cases Encode_test_url
        canonicalHeaders_range_order [OF fakeRequest_names assms] canonicalHeaders_fakeRequest
        hashedBody_def Sum256_empty newline_def fake_canonical_def)
qed


section \<open>Failures\<close>




section \<open>The Signing Key Deriver and the Signature Calculator\<close>

lemma mac_Sum_Write_New: "mac_Sum (mac_Write (hmac_New key) message) = HMAC key message"
  by (simp add: mac_Sum_def mac_Write_def hmac_New_def HMAC_def Let_def)

lemma deriveSigningKey_HMAC:
  "deriveSigningKey awsKey date region service
     = HMAC (HMAC (HMAC (HMAC (''AWS4'' @ awsKey) (Format date dateFormat)) region) service)
         terminationString"
  by (simp only: deriveSigningKey_def Let_def mac_Sum_Write_New)

lemma deriveSigningKey_locals_HMAC:
  "deriveSigningKey_locals awsKey date region service
     = (HMAC (''AWS4'' @ awsKey) (Format date dateFormat),
        HMAC (HMAC (''AWS4'' @ awsKey) (Format date dateFormat)) region,
        HMAC (HMAC (HMAC (''AWS4'' @ awsKey) (Format date dateFormat)) region) service,
        deriveSigningKey awsKey date region service)"
  by (simp only: deriveSigningKey_locals_def deriveSigningKey_def Let_def mac_Sum_Write_New)

lemma calculateSignature_HMAC:
  "calculateSignature signingKey message = EncodeToString (HMAC signingKey message)"
  by (simp only: calculateSignature_def Let_def mac_Sum_Write_New)

lemma HMAC_kDate: "HMAC (''AWS4'' @ test_awsKey) ''20150830'' = test_kDate"
  by code_simp

lemma HMAC_kRegion: "HMAC test_kDate ''us-east-1'' = test_kRegion"
  by code_simp

lemma HMAC_kService: "HMAC test_kRegion ''iam'' = test_kService"
  by code_simp

lemma HMAC_kSigning: "HMAC test_kService ''aws4_request'' = test_kSigning"
  by code_simp


lemma Sum256_fake_canonical:
  "EncodeToString (Sum256 fake_canonical)
     = ''f536975d06c0309214f805bb90ccff089219ecd68b2577efef23edd43b7e1a59''"
  by code_simp

lemma HMAC_fake_stringToSign:
  "EncodeToString (HMAC test_kSigning fake_stringToSign)
     = ''5d672d79c15b13162d9279b0855cfba6789a8edb4c82c400e06b5924a6f2b5d7''"
  by code_simp

lemma deriveSigningKey_test: "deriveSigningKey test_awsKey test_time ''us-east-1'' ''iam'' = test_kSigning"
  by (simp only: deriveSigningKey_HMAC Format_test_time_dateFormat terminationString_def
      HMAC_kDate HMAC_kRegion HMAC_kService HMAC_kSigning)



lemma stringToSign_test:
  "stringToSign test_time ''us-east-1'' ''iam'' hashed
     = ''AWS4-HMAC-SHA256\<newline>20150830T123600Z\<newline>20150830/us-east-1/iam/aws4_request\<newline>'' @ hashed"
  by (simp add: stringToSign_def Let_def credentialScope_def algorithm_def newline_def
      terminationString_def Format_test_time_dateTimeFormat Format_test_time_dateFormat)

lemma stringToSign_fake:
  "stringToSign test_time ''us-east-1'' ''iam''
     ''f536975d06c0309214f805bb90ccff089219ecd68b2577efef23edd43b7e1a59'' = fake_stringToSign"
  by (simp add: stringToSign_test fake_stringToSign_def)

text \<open>
  C3. The request of the published test vector is \<open>fakeRequest\<close> of the tests: \<open>GET\<close>,
  path \<open>/\<close>, query \<open>Action=ListUsers&Version=2010-05-08\<close>, the \<open>Content-Type\<close> header, the
  header \<open>X-Amz-Date: 20150830T123600Z\<close> of the vector, and the host \<open>iam.amazonaws.com\<close>.
  For it, an empty payload, 2015-08-30 12:36:00 UTC, \<open>us-east-1\<close>, \<open>iam\<close> and the secret of
  the vector, \<open>AWSSignature\<close> returns \<open>5d672d79...\<close> in whatever order the header map is
  visited, and the last line of the canonical request is the SHA-256 of zero bytes.
\<close>

theorem AWSSignature_fakeRequest:
  assumes "range_order (Header fakeRequest) visited"
  shows "AWSSignature (Some fakeRequest) [] test_time ''us-east-1'' ''iam'' test_awsKey visited
           = Inr ''5d672d79c15b13162d9279b0855cfba6789a8edb4c82c400e06b5924a6f2b5d7''
       \<and> canonicalString (Some fakeRequest) [] visited = Inr fake_canonical
       \<and> last (Split fake_canonical (CHR 0x0A))
           = ''e3b0c44298fc1c149afbf4c8996fb92427ae41e4649b934ca495991b7852b855''"
proof -
  have "AWSSignature (Some fakeRequest) [] test_time ''us-east-1'' ''iam'' test_awsKey visited
     = Inr ''5d672d79c15b13162d9279b0855cfba6789a8edb4c82c400e06b5924a6f2b5d7''"
    by (simp only: AWSSignature_cases canonicalString_fakeRequest [OF assms] sum.case
        Sum256_fake_canonical stringToSign_fake deriveSigningKey_test calculateSignature_HMAC
        HMAC_fake_stringToSign)
  moreover have "last (Split fake_canonical (CHR 0x0A))
           = ''e3b0c44298fc1c149afbf4c8996fb92427ae41e4649b934ca495991b7852b855''"
    by code_simp
  ultimately show ?thesis
    using canonicalString_fakeRequest [OF assms] by simp
qed

theorem AWSSignature_fakeRequest_witness:
  "AWSSignature (Some fakeRequest) [] test_time ''us-east-1'' ''iam'' test_awsKey
       [(''Content-Type'', [''application/x-www-form-urlencoded; charset=utf-8'']),
        (''X-Amz-Date'', [''20150830T123600Z''])]
     = Inr ''5d672d79c15b13162d9279b0855cfba6789a8edb4c82c400e06b5924a6f2b5d7''"
proof -
  have "range_order (Header fakeRequest)
          [(''Content-Type'', [''application/x-www-form-urlencoded; charset=utf-8'']),
           (''X-Amz-Date'', [''20150830T123600Z''])]"
    by (simp add: range_order_def fakeRequest_def entries_def)
  from AWSSignature_fakeRequest [OF this] show ?thesis
    by simp
qed

lemma length_HMAC: "length (HMAC key message) = 32"
  by (simp add: HMAC_def Let_def length_Sum256)

lemma HMAC_collision: "\<exists>s1 s2. s1 \<noteq> s2 \<and> HMAC key s1 = HMAC key s2"
proof (rule ccontr)
  assume "\<not> (\<exists>s1 s2. s1 \<noteq> s2 \<and> HMAC key s1 = HMAC key s2)"
  then have "inj (HMAC key)"
    by (auto simp: inj_on_def)
  moreover have "range (HMAC key) \<subseteq> {xs. set xs \<subseteq> UNIV \<and> length xs = 32}"
    by (auto simp: length_HMAC)
  moreover have "finite {xs :: string. set xs \<subseteq> UNIV \<and> length xs = 32}"
    by (rule finite_lists_length_eq) simp
  ultimately have "finite (UNIV :: string set)"
    by (meson finite_imageD finite_subset)
  then show False
    using infinite_UNIV_listI by blast
qed

lemma kService_collision:
  "\<exists>t1 t2. t1 \<noteq> t2
     \<and> snd (snd (deriveSigningKey_locals secret date region t1))
       = snd (snd (deriveSigningKey_locals secret date region t2))"
proof -
  obtain t1 t2 where "t1 \<noteq> t2"
    and "HMAC (HMAC (HMAC (''AWS4'' @ secret) (Format date dateFormat)) region) t1
       = HMAC (HMAC (HMAC (''AWS4'' @ secret) (Format date dateFormat)) region) t2"
    using HMAC_collision by blast
  then have "snd (snd (deriveSigningKey_locals secret date region t1))
           = snd (snd (deriveSigningKey_locals secret date region t2))"
    by (simp add: deriveSigningKey_locals_HMAC deriveSigningKey_HMAC)
  with \<open>t1 \<noteq> t2\<close> show ?thesis
    by blast
qed

text \<open>
  C6, as amended. For two services and the same secret, date and region the derivation
  has the same \<open>kDate\<close> and the same \<open>kRegion\<close>; \<open>kService\<close> is the HMAC of the service
  under \<open>kRegion\<close>, and \<open>kSigning\<close> the HMAC of \<open>aws4_request\<close> under \<open>kService\<close>. These two
  differ for two services only as far as HMAC-SHA256 separates them: its values are 32
  bytes, so for every secret, date and region two distinct services exist that share
  \<open>kService\<close> and \<open>kSigning\<close>.
\<close>

theorem service_changes_later_stages:
  "(case (deriveSigningKey_locals secret date region service,
          deriveSigningKey_locals secret date region service') of
      ((kDate1, kRegion1, kService1, kSigning1), (kDate2, kRegion2, kService2, kSigning2)) \<Rightarrow>
         kDate1 = kDate2 \<and> kRegion1 = kRegion2
         \<and> kService1 = HMAC kRegion1 service \<and> kService2 = HMAC kRegion1 service'
         \<and> kSigning1 = HMAC kService1 ''aws4_request''
         \<and> kSigning2 = HMAC kService2 ''aws4_request''
         \<and> kSigning1 = deriveSigningKey secret date region service
         \<and> kSigning2 = deriveSigningKey secret date region service')
   \<and> (\<exists>t1 t2. t1 \<noteq> t2
         \<and> snd (snd (deriveSigningKey_locals secret date region t1))
           = snd (snd (deriveSigningKey_locals secret date region t2)))"
  using kService_collision [of secret date region]
  by (simp add: deriveSigningKey_locals_HMAC deriveSigningKey_HMAC terminationString_def)

lemma HMAC_ses_kService: "HMAC test_kRegion ''ses'' = ses_kService"
  by code_simp

lemma HMAC_ses_kSigning: "HMAC ses_kService ''aws4_request'' = ses_kSigning"
  by code_simp

lemma ses_keys_differ: "test_kService \<noteq> ses_kService \<and> test_kSigning \<noteq> ses_kSigning"
  by code_simp

theorem service_changes_later_stages_witness:
  "deriveSigningKey_locals test_awsKey test_time ''us-east-1'' ''iam''
     = (test_kDate, test_kRegion, test_kService, test_kSigning)
   \<and> deriveSigningKey_locals test_awsKey test_time ''us-east-1'' ''ses''
     = (test_kDate, test_kRegion, ses_kService, ses_kSigning)
   \<and> test_kService \<noteq> ses_kService \<and> test_kSigning \<noteq> ses_kSigning"
proof -
  have "fst (deriveSigningKey_locals test_awsKey test_time ''us-east-1'' ''iam'') = test_kDate"
    and "fst (snd (deriveSigningKey_locals test_awsKey test_time ''us-east-1'' ''iam'')) = test_kRegion"
    by (simp_all only: deriveSigningKey_locals_HMAC Format_test_time_dateFormat HMAC_kDate
        HMAC_kRegion fst_conv snd_conv)
  with service_changes_later_stages [where secret = test_awsKey and date = test_time
      and region = "''us-east-1''" and service = "''iam''" and service' = "''ses''"]
  show ?thesis
    using ses_keys_differ
    by (auto simp: HMAC_kService HMAC_kSigning HMAC_ses_kService HMAC_ses_kSigning
        split: prod.splits)
qed

text \<open>
  C6 as stated fails: not every two distinct services give different \<open>kService\<close> values,
  here for the secret, date and region of the test vector.
\<close>

theorem some_services_share_kService:
  "\<exists>t1 t2. t1 \<noteq> t2
     \<and> snd (snd (deriveSigningKey_locals test_awsKey test_time ''us-east-1'' t1))
       = snd (snd (deriveSigningKey_locals test_awsKey test_time ''us-east-1'' t2))"
  by (rule kService_collision)

end
